theory Spec2Isabelle
  imports Main "HOL-Library.Sublist"
begin

section \<open>ViewerBot: a shallow embedding of the tracking state machine\<close>

text \<open>
  The development follows \<^verbatim>\<open>ViewerBot.py\<close>. The module keeps its state in globals
  (\<^verbatim>\<open>bot_usernames\<close>, \<^verbatim>\<open>active_links\<close>, \<^verbatim>\<open>user_appearance_count\<close>, \<^verbatim>\<open>raiders\<close>) and in
  the field \<^verbatim>\<open>active_users\<close> of the single \<^verbatim>\<open>TwitchBot\<close> object; here they are the fields
  of one record that every handler takes and returns. The event loop is single threaded,
  so a handler is one step of the machine.

  Scope of the model. The field \<open>sent\<close> records the texts handed to
  \<^verbatim>\<open>output_channel.send\<close>, in order. In the handlers a \<^verbatim>\<open>send\<close> is taken to
  complete: one that fails with \<^verbatim>\<open>HTTPException\<close> is logged and swallowed by the code.
  The requests to the chat client (\<^verbatim>\<open>join_channels\<close>, \<^verbatim>\<open>part_channels\<close>) are taken
  to complete as well. In the tracking loop, which also catches
  \<^verbatim>\<open>ConnectionResetError\<close>, the outcome of every \<^verbatim>\<open>send\<close> is an input of the
  model. The output channel is taken to be resolved.
  Exceptions that the data decides (\<^verbatim>\<open>IndexError\<close> of the link extraction), those of the
  exclusion list download and the \<^verbatim>\<open>RecursionError\<close> of the nested reconnection are
  branches of the model. Strings are byte lists; identities and links are ASCII.
\<close>

subsection \<open>Python strings\<close>

text \<open>\<^verbatim>\<open>str.lower\<close> on ASCII text: the letters A to Z are mapped, everything else is kept.\<close>

definition lower_char :: "char \<Rightarrow> char" where
  "lower_char c =
     (case map_of (zip ''ABCDEFGHIJKLMNOPQRSTUVWXYZ'' ''abcdefghijklmnopqrstuvwxyz'') c of
        Some d \<Rightarrow> d
      | None \<Rightarrow> c)"

definition lower :: "string \<Rightarrow> string" where
  "lower s = map lower_char s"

text \<open>\<^verbatim>\<open>sep.join(xs)\<close>.\<close>

fun join :: "string \<Rightarrow> string list \<Rightarrow> string" where
  "join sep [] = []"
| "join sep [x] = x"
| "join sep (x # y # ys) = x @ sep @ join sep (y # ys)"

text \<open>\<^verbatim>\<open>sub in s\<close> for strings: \<open>sub\<close> occurs somewhere in \<open>s\<close>.\<close>

fun str_contains :: "string \<Rightarrow> string \<Rightarrow> bool" where
  "str_contains sub [] = (sub = [])"
| "str_contains sub (c # cs) = (prefix sub (c # cs) \<or> str_contains sub cs)"

text \<open>
  \<^verbatim>\<open>s.split(sep)\<close> for a non-empty separator: the text is scanned from the left, every
  occurrence of \<open>sep\<close> closes the current piece and is skipped. \<open>acc\<close> holds the current
  piece, reversed. (Python raises \<^verbatim>\<open>ValueError\<close> for an empty separator; the only
  separator of the program is the constant \<^verbatim>\<open>'twitch.tv/'\<close>.)
\<close>

function split_from :: "string \<Rightarrow> string \<Rightarrow> string \<Rightarrow> string list" where
  "split_from sep acc [] = [rev acc]"
| "split_from sep acc (c # cs) =
     (if sep \<noteq> [] \<and> prefix sep (c # cs)
      then rev acc # split_from sep [] (drop (length sep) (c # cs))
      else split_from sep (c # acc) cs)"
  by pat_completeness auto
termination
  by (relation "measure (\<lambda>(sep, acc, s). length s)") auto

definition split :: "string \<Rightarrow> string \<Rightarrow> string list" where
  "split sep s = split_from sep [] s"

text \<open>
  \<^verbatim>\<open>s.split()\<close>: runs of whitespace separate the words, and leading and trailing
  whitespace yields no empty word. The whitespace characters of ASCII are the codes
  9 to 13, 28 to 31 and 32.
\<close>

definition is_space :: "char \<Rightarrow> bool" where
  "is_space c =
     (c \<in> set [CHR 0x09, CHR 0x0A, CHR 0x0B, CHR 0x0C, CHR 0x0D,
               CHR 0x1C, CHR 0x1D, CHR 0x1E, CHR 0x1F, CHR 0x20])"

fun words_from :: "string \<Rightarrow> string \<Rightarrow> string list" where
  "words_from acc [] = (if acc = [] then [] else [rev acc])"
| "words_from acc (c # cs) =
     (if is_space c
      then (if acc = [] then words_from [] cs else rev acc # words_from [] cs)
      else words_from (c # acc) cs)"

definition split_ws :: "string \<Rightarrow> string list" where
  "split_ws s = words_from [] s"

text \<open>\<^verbatim>\<open>str(n)\<close> for an integer.\<close>

fun str_nat :: "nat \<Rightarrow> string" where
  "str_nat n =
     (if n < 10 then [''0123456789'' ! n]
      else str_nat (n div 10) @ [''0123456789'' ! (n mod 10)])"

declare str_nat.simps [simp del]

definition str_int :: "int \<Rightarrow> string" where
  "str_int i = (if i < 0 then ''-'' @ str_nat (nat (- i)) else str_nat (nat i))"

subsection \<open>Python values, exceptions, containers\<close>

datatype error = IndexError | AttributeError | ClientError | RecursionError

text \<open>What a call returns: \<^verbatim>\<open>None\<close> or a boolean (the only values the claims speak of).\<close>

datatype py_value = PyNone | PyBool bool

text \<open>
  How a handler ends. An exception does not roll the globals back, so a handler yields
  its outcome together with the state it leaves behind.
\<close>

datatype outcome = Returned py_value | Raised error

text \<open>\<^verbatim>\<open>xs[-1]\<close> and \<^verbatim>\<open>xs[0]\<close>: both raise \<^verbatim>\<open>IndexError\<close> on the empty list.\<close>

definition index_last :: "'a list \<Rightarrow> error + 'a" where
  "index_last xs = (if xs = [] then Inl IndexError else Inr (last xs))"

definition index_first :: "'a list \<Rightarrow> error + 'a" where
  "index_first xs = (case xs of [] \<Rightarrow> Inl IndexError | x # _ \<Rightarrow> Inr x)"

text \<open>
  A \<^verbatim>\<open>dict\<close> is an association list in insertion order (the order \<^verbatim>\<open>items()\<close>
  yields): assigning to a present key keeps its position, a new key goes to the end.
\<close>

type_synonym ('k, 'v) dict = "('k \<times> 'v) list"

definition dict_contains :: "('k, 'v) dict \<Rightarrow> 'k \<Rightarrow> bool" where
  "dict_contains d k = (map_of d k \<noteq> None)"

definition dict_get :: "('k, 'v) dict \<Rightarrow> 'k \<Rightarrow> 'v \<Rightarrow> 'v" where
  "dict_get d k dflt = (case map_of d k of None \<Rightarrow> dflt | Some v \<Rightarrow> v)"

fun dict_set :: "('k, 'v) dict \<Rightarrow> 'k \<Rightarrow> 'v \<Rightarrow> ('k, 'v) dict" where
  "dict_set [] k v = [(k, v)]"
| "dict_set ((k', v') # d) k v =
     (if k' = k then (k, v) # d else (k', v') # dict_set d k v)"

text \<open>\<^verbatim>\<open>d.pop(k, None)\<close>: the value, if any, and the dictionary without the key.\<close>

definition dict_pop :: "('k, 'v) dict \<Rightarrow> 'k \<Rightarrow> 'v option \<times> ('k, 'v) dict" where
  "dict_pop d k = (map_of d k, filter (\<lambda>(k', v'). k' \<noteq> k) d)"

text \<open>
  A \<^verbatim>\<open>set\<close> is a list without repetitions; \<^verbatim>\<open>add\<close> of a member changes nothing.
  The list order stands for the iteration order of the set, which Python leaves open:
  no statement below depends on it except through the members of the list.
\<close>

definition set_add :: "'a list \<Rightarrow> 'a \<Rightarrow> 'a list" where
  "set_add xs x = (if x \<in> set xs then xs else xs @ [x])"

subsection \<open>Extracting the stream identifier\<close>

text \<open>
  Lines 260 and 278: \<^verbatim>\<open>message.content.split('twitch.tv/')[-1].split()[0]\<close>.
\<close>

definition extract_username :: "string \<Rightarrow> error + string" where
  "extract_username content =
     (case index_last (split ''twitch.tv/'' content) of
        Inl e \<Rightarrow> Inl e
      | Inr piece \<Rightarrow> index_first (split_ws piece))"

subsection \<open>The state of the process\<close>

text \<open>
  A task handle: the task created for \<^verbatim>\<open>post_viewers_list(twitch_username)\<close>. A request
  to the chat client: \<^verbatim>\<open>join_channels([name])\<close> or \<^verbatim>\<open>part_channels([name])\<close>.
\<close>

datatype task = Task string

datatype chat_request = Join string | Part string

record bot_state =
  bot_usernames :: "string list"
  active_links :: "(string, task) dict"
  user_appearance_count :: "(string, int) dict"
  raiders :: "string list"
  active_users :: "string list"
  sent :: "string list"
  chat_requests :: "chat_request list"
  cancelled :: "task list"

text \<open>
  The state after the module has been loaded (lines 69 to 91 and 162), \<open>names\<close> being
  what the first download of the exclusion list returned.
\<close>

definition init_state :: "string list \<Rightarrow> bot_state" where
  "init_state names =
     \<lparr>bot_usernames = names, active_links = [], user_appearance_count = [],
      raiders = [], active_users = [], sent = [], chat_requests = [], cancelled = []\<rparr>"

record config =
  TRACK_CHANNEL_ID :: int
  OUTPUT_CHANNEL_ID :: int

text \<open>A message of the control surface; \<open>author_is_client\<close> is \<^verbatim>\<open>message.author == client.user\<close>.\<close>

record message =
  author_is_client :: bool
  channel_id :: int
  content :: string

text \<open>\<^verbatim>\<open>await output_channel.send(text)\<close> inside its \<^verbatim>\<open>try\<close>.\<close>

definition send :: "bot_state \<Rightarrow> string \<Rightarrow> bot_state" where
  "send s txt = s\<lparr>sent := sent s @ [txt]\<rparr>"

subsection \<open>Exclusion list download (lines 45 to 59)\<close>

text \<open>
  The answer of the HTTP request: the connection fails (\<^verbatim>\<open>session.get\<close> raises a
  \<^verbatim>\<open>ClientError\<close>, which the function does not catch), or a response arrives.
  \<^verbatim>\<open>json.loads\<close> is a parameter: it rejects the text, or yields an object (whose members
  of interest are arrays of strings), or yields a value that is no object and so has no
  \<^verbatim>\<open>get\<close>.
\<close>

record http_response =
  status :: int
  body :: string

datatype http_outcome = ConnectionFailed | Responded http_response

datatype decoded = JSONDecodeError | JsonDict "(string, string list) dict" | JsonOther

definition load_bot_usernames ::
  "(string \<Rightarrow> decoded) \<Rightarrow> http_outcome \<Rightarrow> error + string list" where
  "load_bot_usernames json_loads fetched =
     (case fetched of
        ConnectionFailed \<Rightarrow> Inl ClientError
      | Responded response \<Rightarrow>
          if status response = 200 then
            (case json_loads (body response) of
               JsonDict data \<Rightarrow> Inr (dict_get data ''bot_usernames'' [])
             | JsonOther \<Rightarrow> Inl AttributeError
             | JSONDecodeError \<Rightarrow> Inr [])
          else Inr [])"

subsection \<open>The chat client (class TwitchBot)\<close>

text \<open>\<^verbatim>\<open>event_message\<close> (lines 104 to 109): an echo is ignored, any other author is recorded.\<close>

definition event_message :: "bot_state \<Rightarrow> bool \<Rightarrow> string \<Rightarrow> bot_state" where
  "event_message s echo author_name =
     (if echo then s else s\<lparr>active_users := set_add (active_users s) author_name\<rparr>)"

text \<open>
  \<^verbatim>\<open>event_usernotice\<close> (lines 111 to 135), with the tags \<^verbatim>\<open>msg-id\<close>,
  \<^verbatim>\<open>display-name\<close> and \<^verbatim>\<open>msg-param-viewerCount\<close> of the notice.
\<close>

definition event_usernotice :: "bot_state \<Rightarrow> string \<Rightarrow> string \<Rightarrow> string \<Rightarrow> bot_state" where
  "event_usernotice s msg_id raider viewers =
     (if msg_id = ''raid'' then
        send (s\<lparr>raiders := set_add (raiders s) raider\<rparr>)
          (''Thanks '' @ raider @ '' for the raid with '' @ viewers @ '' viewers!'')
      else s)"

text \<open>\<^verbatim>\<open>get_active_users\<close> (lines 141 and 142): \<^verbatim>\<open>return list(self.active_users)\<close>.\<close>

definition get_active_users :: "bot_state \<Rightarrow> string list \<times> bot_state" where
  "get_active_users s = (active_users s, s)"

text \<open>
  \<^verbatim>\<open>reconnect\<close> (lines 151 to 159). \<open>connects\<close> says, for each attempt number, whether
  \<^verbatim>\<open>close\<close> and \<^verbatim>\<open>connect\<close> go through. A failed attempt sleeps and then awaits a
  nested call (line 159), one level deeper each time. \<open>room\<close> is the number of nested
  calls that the recursion limit of the interpreter (1000 frames unless changed) still
  allows; the call beyond it raises \<^verbatim>\<open>RecursionError\<close>. The \<^verbatim>\<open>await\<close> of line 159
  stands in the \<^verbatim>\<open>except\<close> block, outside every \<^verbatim>\<open>try\<close>, so that exception leaves
  all the levels. The result is how the procedure ends and the delays slept, in seconds.
\<close>

fun reconnect :: "nat \<Rightarrow> (int \<Rightarrow> bool) \<Rightarrow> int \<Rightarrow> outcome \<times> int list" where
  "reconnect 0 connects attempt = (Raised RecursionError, [])"
| "reconnect (Suc room) connects attempt =
     (if connects attempt then (Returned PyNone, [])
      else (case reconnect room connects (attempt + 1) of
              (ended, delays) \<Rightarrow> (ended, min (10 * attempt) 60 # delays)))"

subsection \<open>One cycle of the tracking loop (lines 167 to 217)\<close>

text \<open>Line 172: the users whose lower-cased name is not in the exclusion list.\<close>

definition filtered_users :: "string list \<Rightarrow> string list \<Rightarrow> string list" where
  "filtered_users names users = [user \<leftarrow> users. lower user \<notin> set names]"

text \<open>Lines 182 and 183: one more appearance for each of the users.\<close>

definition track_appearances :: "(string, int) dict \<Rightarrow> string list \<Rightarrow> (string, int) dict" where
  "track_appearances counts users =
     foldl (\<lambda>d user. dict_set d user (dict_get d user 0 + 1)) counts users"

text \<open>
  What the surroundings do during one iteration of the loop. A \<^verbatim>\<open>send\<close> is delivered,
  or raises \<^verbatim>\<open>HTTPException\<close> (caught next to the call, lines 178 and following), or
  raises \<^verbatim>\<open>ConnectionResetError\<close> (caught at lines 195 and 212).
  \<^verbatim>\<open>get_twitch_stream_data\<close> returns the viewer count of a live stream or nothing, or a
  \<^verbatim>\<open>ConnectionResetError\<close> comes out of it. The last three fields are the inputs of the
  two calls of \<^verbatim>\<open>reconnect\<close> (lines 197 and 214).
\<close>

datatype send_outcome = Delivered | HTTPException | SendReset

datatype stream_outcome = StreamReset | StreamData "int option"

record cycle_env =
  report_send :: send_outcome
  stream_fetch :: stream_outcome
  viewers_send :: send_outcome
  recursion_room :: nat
  connects_report :: "int \<Rightarrow> bool"
  connects_viewers :: "int \<Rightarrow> bool"

text \<open>
  Lines 168 to 197: the report on the active users. Exactly one \<^verbatim>\<open>send\<close> is reached.
  When it raises \<^verbatim>\<open>ConnectionResetError\<close> the rest of the \<^verbatim>\<open>try\<close> block is skipped,
  the appearance counts of lines 182 and 183 included, and \<^verbatim>\<open>reconnect\<close> is awaited.
\<close>

definition report_active_users :: "cycle_env \<Rightarrow> bot_state \<Rightarrow> string \<Rightarrow> outcome \<times> bot_state" where
  "report_active_users env s twitch_username =
     (case get_active_users s of (users, s0) \<Rightarrow>
        (case
           (if users \<noteq> [] then
              let filtered = filtered_users (bot_usernames s0) users in
              if filtered \<noteq> [] then
                let s' = send s0 (''Active users interacting in '' @ twitch_username @ '': ''
                                  @ join '', '' filtered)
                in if report_send env = SendReset then (True, s')
                   else (False,
                         s'\<lparr>user_appearance_count :=
                              track_appearances (user_appearance_count s') filtered\<rparr>)
              else (report_send env = SendReset,
                    send s0 (''No non-bot chat users detected for '' @ twitch_username @ ''.''))
            else (report_send env = SendReset,
                  send s0 (''No active chat users detected for '' @ twitch_username @ ''.'')))
         of (reset, s1) \<Rightarrow>
           if reset
           then (fst (reconnect (recursion_room env) (connects_report env) 1), s1)
           else (Returned PyNone, s1)))"

text \<open>Lines 199 to 214: the report on the viewer count.\<close>

definition report_viewer_count :: "cycle_env \<Rightarrow> bot_state \<Rightarrow> string \<Rightarrow> outcome \<times> bot_state" where
  "report_viewer_count env s twitch_username =
     (case
        (case stream_fetch env of
           StreamReset \<Rightarrow> (True, s)
         | StreamData stream_data \<Rightarrow>
             (viewers_send env = SendReset,
              case stream_data of
                Some viewer_count \<Rightarrow>
                  send s (twitch_username @ '' currently has '' @ str_int viewer_count
                          @ '' viewers.'')
              | None \<Rightarrow> send s (twitch_username @ '' is not currently live.'')))
      of (reset, s1) \<Rightarrow>
        if reset
        then (fst (reconnect (recursion_room env) (connects_viewers env) 1), s1)
        else (Returned PyNone, s1))"

text \<open>
  The body of the \<^verbatim>\<open>while\<close> loop, up to the sleep. An exception that comes out of
  \<^verbatim>\<open>reconnect\<close> ends the task before line 216. When the name is no longer in
  \<^verbatim>\<open>active_links\<close> the loop ends and nothing happens.
\<close>

definition post_viewers_list_cycle :: "cycle_env \<Rightarrow> bot_state \<Rightarrow> string \<Rightarrow> outcome \<times> bot_state" where
  "post_viewers_list_cycle env s twitch_username =
     (if dict_contains (active_links s) twitch_username then
        (case report_active_users env s twitch_username of
           (Raised e, s1) \<Rightarrow> (Raised e, s1)
         | (Returned v, s1) \<Rightarrow>
             (case report_viewer_count env s1 twitch_username of
                (Raised e, s2) \<Rightarrow> (Raised e, s2)
              | (Returned v', s2) \<Rightarrow> (Returned PyNone, s2\<lparr>active_users := []\<rparr>)))
      else (Returned PyNone, s))"

subsection \<open>Starting and stopping (lines 222 to 348)\<close>

definition start_tracking :: "bot_state \<Rightarrow> string \<Rightarrow> bot_state" where
  "start_tracking s twitch_username =
     (if \<not> dict_contains (active_links s) twitch_username then
        let s1 = s\<lparr>active_links := dict_set (active_links s) twitch_username (Task twitch_username)\<rparr>;
            s2 = send s1 (''Started tracking '' @ twitch_username @ ''.'')
        in s2\<lparr>chat_requests := chat_requests s2 @ [Join twitch_username]\<rparr>
      else s)"

definition on_message :: "config \<Rightarrow> bot_state \<Rightarrow> message \<Rightarrow> outcome \<times> bot_state" where
  "on_message cfg s m =
     (if author_is_client m then (Returned PyNone, s)
      else if channel_id m = TRACK_CHANNEL_ID cfg then
        (if str_contains ''twitch.tv'' (content m) then
           (case extract_username (content m) of
              Inl e \<Rightarrow> (Raised e, s)
            | Inr twitch_username \<Rightarrow>
                if \<not> dict_contains (active_links s) twitch_username
                then (Returned PyNone, start_tracking s twitch_username)
                else (Returned PyNone, s))
         else (Returned PyNone, s))
      else (Returned PyNone, s))"

text \<open>
  Lines 303 to 348 of \<^verbatim>\<open>on_message_delete\<close>: the three messages of the summary, then
  the two \<^verbatim>\<open>clear()\<close> calls.
\<close>

definition summary :: "bot_state \<Rightarrow> bot_state" where
  "summary s =
     (let multi_appearance_users = [user. (user, count) \<leftarrow> user_appearance_count s, count > 1];
          single_appearance_users = [user. (user, count) \<leftarrow> user_appearance_count s, count = 1];
          s1 = (if single_appearance_users \<noteq> []
                then send s (''Users who appeared in only one list: ''
                             @ join '', '' (rev single_appearance_users))
                else send s ''No users appeared in only one list.'');
          s2 = (if multi_appearance_users \<noteq> []
                then send s1 (''Users who appeared in multiple lists: ''
                              @ join '', '' (rev multi_appearance_users))
                else send s1 ''No users appeared in more than one list.'');
          s3 = (if raiders s2 \<noteq> []
                then send s2 (''Users who raided the channel: '' @ join '', '' (raiders s2))
                else send s2 ''No users raided the channel.'')
      in s3\<lparr>user_appearance_count := [], raiders := []\<rparr>)"

text \<open>
  \<^verbatim>\<open>on_message_delete\<close> (lines 271 to 348). The function has no \<^verbatim>\<open>return\<close>
  statement: where it returns, it returns \<^verbatim>\<open>None\<close>. \<open>fetched\<close> is the answer to the
  download that line 300 starts.
\<close>

definition on_message_delete ::
  "config \<Rightarrow> (string \<Rightarrow> decoded) \<Rightarrow> http_outcome \<Rightarrow> bot_state \<Rightarrow> message
     \<Rightarrow> outcome \<times> bot_state" where
  "on_message_delete cfg json_loads fetched s m =
     (if channel_id m = TRACK_CHANNEL_ID cfg then
        (if str_contains ''twitch.tv'' (content m) then
           (case extract_username (content m) of
              Inl e \<Rightarrow> (Raised e, s)
            | Inr twitch_username \<Rightarrow>
                if dict_contains (active_links s) twitch_username then
                  (case dict_pop (active_links s) twitch_username of
                     (None, links) \<Rightarrow> (Returned PyNone, summary (s\<lparr>active_links := links\<rparr>))
                   | (Some t, links) \<Rightarrow>
                       let s1 = s\<lparr>active_links := links, cancelled := cancelled s @ [t]\<rparr>;
                           s2 = send s1 (''Stopped tracking '' @ twitch_username
                                         @ '' as the link was removed.'');
                           s3 = s2\<lparr>chat_requests := chat_requests s2 @ [Part twitch_username]\<rparr>
                       in (case load_bot_usernames json_loads fetched of
                             Inl e \<Rightarrow> (Raised e, s3)
                           | Inr names \<Rightarrow>
                               (Returned PyNone, summary (s3\<lparr>bot_usernames := names\<rparr>))))
                else (Returned PyNone, s))
         else (Returned PyNone, s))
      else (Returned PyNone, s))"

subsection \<open>The tracking loop over several cycles\<close>

text \<open>
  The \<^verbatim>\<open>while\<close> loop of \<^verbatim>\<open>post_viewers_list\<close>, iteration by iteration. Each element
  of the script is one iteration: the authors of the chat messages (none of them an echo)
  that \<^verbatim>\<open>event_message\<close> received since the previous iteration, and what the
  surroundings do during this iteration. The run ends early when an iteration ends with
  an exception.
\<close>

definition record_all :: "bot_state \<Rightarrow> string list \<Rightarrow> bot_state" where
  "record_all s authors = foldl (\<lambda>s' author_name. event_message s' False author_name) s authors"




subsection \<open>Events other than an iteration of a tracking loop\<close>

text \<open>
  What the event loop may run between two iterations of tracking loops: a chat message
  (\<^verbatim>\<open>event_message\<close>), a user notice (\<^verbatim>\<open>event_usernotice\<close>), a message posted on the
  control surface (\<^verbatim>\<open>on_message\<close>), a message deleted there (\<^verbatim>\<open>on_message_delete\<close>,
  with the parser and the answer to its download).
\<close>

datatype event =
    Chat bool string
  | Notice string string string
  | Posted message
  | Deleted "string \<Rightarrow> decoded" http_outcome message

fun handle :: "config \<Rightarrow> bot_state \<Rightarrow> event \<Rightarrow> bot_state" where
  "handle cfg s (Chat echo author_name) = event_message s echo author_name"
| "handle cfg s (Notice msg_id raider viewers) = event_usernotice s msg_id raider viewers"
| "handle cfg s (Posted m) = snd (on_message cfg s m)"
| "handle cfg s (Deleted json_loads fetched m) = snd (on_message_delete cfg json_loads fetched s m)"

section \<open>Properties\<close>

subsection \<open>Containers\<close>

lemma map_of_dict_set: "map_of (dict_set d k v) = (map_of d)(k \<mapsto> v)"
  by (induction d k v rule: dict_set.induct) (auto simp: fun_eq_iff)


lemma distinct_set_add: "distinct xs \<Longrightarrow> distinct (set_add xs x)"
  by (simp add: set_add_def)

lemma set_set_add: "set (set_add xs x) = insert x (set xs)"
  by (auto simp: set_add_def)

subsection \<open>Splitting at the link marker\<close>

lemma space_not_t: "is_space c \<Longrightarrow> c \<noteq> CHR ''t''"
  by (auto simp: is_space_def)

lemma split_from_spaces:
  "list_all is_space ws \<Longrightarrow> split_from ''twitch.tv/'' acc ws = [rev acc @ ws]"
proof (induction ws arbitrary: acc)
  case Nil
  then show ?case by simp
next
  case (Cons c cs)
  then have "c \<noteq> CHR ''t''" by (simp add: space_not_t)
  with Cons show ?case by auto
qed

lemma words_from_spaces: "list_all is_space ws \<Longrightarrow> words_from [] ws = []"
  by (induction ws) auto

text \<open>
  The marker has no proper prefix that is also a suffix (only its last character is a
  slash), so an occurrence found by the scan never eats into a later one.
\<close>

lemma marker_no_overlap:
  assumes "prefix ''twitch.tv/'' (pre @ ''twitch.tv/'' @ ws)" and "pre \<noteq> []"
  shows "length ''twitch.tv/'' \<le> length pre"
proof (rule ccontr)
  assume "\<not> length ''twitch.tv/'' \<le> length pre"
  then have "length pre < 10" by simp
  moreover from assms(2) have "0 < length pre" by simp
  ultimately have "length pre = 1 \<or> length pre = 2 \<or> length pre = 3 \<or> length pre = 4
     \<or> length pre = 5 \<or> length pre = 6 \<or> length pre = 7 \<or> length pre = 8 \<or> length pre = 9"
    by arith
  with assms(1) show False
    by (elim disjE) (auto simp: eval_nat_numeral length_Suc_conv)
qed

lemma split_from_step:
  "s \<noteq> [] \<Longrightarrow>
     split_from sep acc s =
       (if sep \<noteq> [] \<and> prefix sep s
        then rev acc # split_from sep [] (drop (length sep) s)
        else split_from sep (hd s # acc) (tl s))"
  by (cases s) simp_all

lemma split_from_nonempty: "split_from sep acc xs \<noteq> []"
  by (induction sep acc xs rule: split_from.induct) auto

lemma split_nonempty: "split sep s \<noteq> []"
  by (simp add: split_def split_from_nonempty)

lemma last_split_from_gen:
  assumes sep: "sep \<noteq> []"
    and noov: "\<And>p. p \<noteq> [] \<Longrightarrow> prefix sep (p @ sep @ ws) \<Longrightarrow> length sep \<le> length p"
    and tail: "split_from sep [] ws = [ws]"
  shows "last (split_from sep acc (pre @ sep @ ws)) = ws"
proof (induction "length pre" arbitrary: pre acc rule: less_induct)
  case less
  have ne: "pre @ sep @ ws \<noteq> []" using sep by simp
  show ?case
  proof (cases "prefix sep (pre @ sep @ ws)")
    case True
    have step: "split_from sep acc (pre @ sep @ ws)
            = rev acc # split_from sep [] (drop (length sep) (pre @ sep @ ws))"
      using True sep by (subst split_from_step[OF ne]) simp
    show ?thesis
    proof (cases "pre = []")
      case True
      then show ?thesis using step tail by simp
    next
      case False
      with True noov have len: "length sep \<le> length pre" by blast
      have d: "drop (length sep) (pre @ sep @ ws) = drop (length sep) pre @ sep @ ws"
        using len by simp
      have "length (drop (length sep) pre) < length pre"
        using sep False by simp
      then have "last (split_from sep [] (drop (length sep) pre @ sep @ ws)) = ws"
        by (rule less.hyps)
      then show ?thesis using step d split_from_nonempty by simp
    qed
  next
    case False
    then have pne: "pre \<noteq> []" by (auto simp: prefix_def)
    then obtain c cs where Cons: "pre = c # cs" by (cases pre) auto
    have "split_from sep acc (pre @ sep @ ws) = split_from sep (c # acc) (cs @ sep @ ws)"
      using False by (subst split_from_step[OF ne]) (simp add: Cons)
    moreover have "last (split_from sep (c # acc) (cs @ sep @ ws)) = ws"
      by (rule less.hyps) (simp add: Cons)
    ultimately show ?thesis by simp
  qed
qed

lemma last_split_marker:
  assumes "list_all is_space ws"
  shows "last (split ''twitch.tv/'' (pre @ ''twitch.tv/'' @ ws)) = ws"
  unfolding split_def
proof (rule last_split_from_gen)
  show "''twitch.tv/'' \<noteq> []" by simp
  show "length ''twitch.tv/'' \<le> length p"
    if "p \<noteq> []" and "prefix ''twitch.tv/'' (p @ ''twitch.tv/'' @ ws)" for p
    using that marker_no_overlap by blast
  show "split_from ''twitch.tv/'' [] ws = [ws]"
    using assms split_from_spaces[of ws "[]"] by simp
qed

lemma str_contains_append: "str_contains sub (pre @ sub @ post)"
proof (induction pre)
  case Nil
  show ?case
  proof (cases "sub @ post")
    case Nil
    then show ?thesis by simp
  next
    case (Cons c cs)
    have "prefix sub (sub @ post)" by simp
    then show ?thesis unfolding append_Nil Cons by simp
  qed
next
  case (Cons a pre)
  then show ?case by simp
qed

lemma marker_present: "str_contains ''twitch.tv'' (pre @ ''twitch.tv/'' @ ws)"
proof -
  have "pre @ ''twitch.tv/'' @ ws = pre @ ''twitch.tv'' @ (''/'' @ ws)" by simp
  then show ?thesis by (simp only: str_contains_append)
qed

lemma extract_fails:
  assumes "list_all is_space ws"
  shows "extract_username (pre @ ''twitch.tv/'' @ ws) = Inl IndexError"
  using assms
  by (simp add: extract_username_def index_last_def index_first_def split_ws_def
      last_split_marker words_from_spaces split_nonempty del: append_Cons)

lemma extract_example:
  "extract_username ''https://twitch.tv/exampleUser'' = Inr ''exampleUser''"
  by (simp add: extract_username_def split_def split_ws_def index_last_def index_first_def
      is_space_def)

subsection \<open>The observer set\<close>

lemma active_users_record_all:
  "active_users (record_all s authors) = foldl set_add (active_users s) authors"
  unfolding record_all_def
  by (induction authors arbitrary: s) (simp_all add: event_message_def)

lemma distinct_foldl_set_add: "distinct xs \<Longrightarrow> distinct (foldl set_add xs ys)"
  by (induction ys arbitrary: xs) (simp_all add: distinct_set_add)

lemma set_foldl_set_add: "set (foldl set_add xs ys) = set xs \<union> set ys"
  by (induction ys arbitrary: xs) (auto simp: set_set_add)


lemma record_all_frame:
  "active_links (record_all s authors) = active_links s"
  "bot_usernames (record_all s authors) = bot_usernames s"
  "user_appearance_count (record_all s authors) = user_appearance_count s"
  "raiders (record_all s authors) = raiders s"
  "sent (record_all s authors) = sent s"
  unfolding record_all_def
  by (induction authors arbitrary: s) (simp_all add: event_message_def)

subsection \<open>Reconnecting\<close>

lemma reconnect_all_fail:
  "reconnect room (\<lambda>attempt. False) attempt
     = (Raised RecursionError, map (\<lambda>k. min (10 * (attempt + int k)) 60) [0..<room])"
proof (induction room arbitrary: attempt)
  case 0
  then show ?case by simp
next
  case (Suc room)
  have "map (\<lambda>k. min (10 * (attempt + int k)) 60) [0..<Suc room]
        = min (10 * attempt) 60 # map (\<lambda>k. min (10 * (attempt + 1 + int k)) 60) [0..<room]"
    by (simp add: upt_rec[of 0] map_Suc_upt[symmetric] algebra_simps del: upt_Suc)
  then show ?case using Suc.IH[of "attempt + 1"] by (simp del: upt_Suc)
qed

lemma reconnect_ends:
  "fst (reconnect room connects attempt) = Returned PyNone
   \<or> fst (reconnect room connects attempt) = Raised RecursionError"
  by (induction room connects attempt rule: reconnect.induct) (auto split: prod.splits)

subsection \<open>The tracking cycle\<close>

lemma report_active_users_frame:
  "active_users (snd (report_active_users env s u)) = active_users s"
  "active_links (snd (report_active_users env s u)) = active_links s"
  "bot_usernames (snd (report_active_users env s u)) = bot_usernames s"
  "raiders (snd (report_active_users env s u)) = raiders s"
  by (auto simp: report_active_users_def get_active_users_def Let_def send_def
      split: prod.splits)

lemma report_viewer_count_frame:
  "active_users (snd (report_viewer_count env s u)) = active_users s"
  "active_links (snd (report_viewer_count env s u)) = active_links s"
  "bot_usernames (snd (report_viewer_count env s u)) = bot_usernames s"
  "user_appearance_count (snd (report_viewer_count env s u)) = user_appearance_count s"
  "raiders (snd (report_viewer_count env s u)) = raiders s"
  by (auto simp: report_viewer_count_def Let_def send_def
      split: prod.splits stream_outcome.splits option.splits)

lemma cycle_cases:
  "post_viewers_list_cycle env s u =
     (if dict_contains (active_links s) u then
        (case fst (report_active_users env s u) of
           Raised e \<Rightarrow> (Raised e, snd (report_active_users env s u))
         | Returned v \<Rightarrow>
            (case fst (report_viewer_count env (snd (report_active_users env s u)) u) of
               Raised e \<Rightarrow> (Raised e, snd (report_viewer_count env (snd (report_active_users env s u)) u))
             | Returned v' \<Rightarrow>
                 (Returned PyNone,
                  (snd (report_viewer_count env (snd (report_active_users env s u)) u))
                    \<lparr>active_users := []\<rparr>)))
      else (Returned PyNone, s))"
  by (cases "report_active_users env s u";
      cases "report_viewer_count env (snd (report_active_users env s u)) u")
     (auto simp: post_viewers_list_cycle_def split: outcome.splits)


lemma cycle_ends:
  "fst (post_viewers_list_cycle env s u) = Returned PyNone
   \<or> fst (post_viewers_list_cycle env s u) = Raised RecursionError"
proof -
  have a: "fst (report_active_users env s u) = Returned PyNone
         \<or> fst (report_active_users env s u) = Raised RecursionError" for s
    using reconnect_ends[of "recursion_room env" "connects_report env" 1]
    by (auto simp: report_active_users_def get_active_users_def Let_def split: prod.splits)
  have b: "fst (report_viewer_count env s u) = Returned PyNone
         \<or> fst (report_viewer_count env s u) = Raised RecursionError" for s
    using reconnect_ends[of "recursion_room env" "connects_viewers env" 1]
    by (auto simp: report_viewer_count_def Let_def split: prod.splits stream_outcome.splits)
  show ?thesis
    using a[of s] b[of "snd (report_active_users env s u)"]
    by (auto simp: cycle_cases split: outcome.splits)
qed

lemma active_users_cycle:
  "active_users (snd (post_viewers_list_cycle env s u))
     = (if dict_contains (active_links s) u
           \<and> fst (post_viewers_list_cycle env s u) = Returned PyNone
        then [] else active_users s)"
  using cycle_ends[of env s u]
  by (auto simp: cycle_cases report_active_users_frame report_viewer_count_frame
      split: outcome.splits)


lemma cycle_returns:
  assumes "report_send env \<noteq> SendReset" "stream_fetch env \<noteq> StreamReset"
    "viewers_send env \<noteq> SendReset"
  shows "fst (post_viewers_list_cycle env s u) = Returned PyNone"
proof -
  have a: "fst (report_active_users env s u) = Returned PyNone" for s
    using assms(1)
    by (auto simp: report_active_users_def get_active_users_def Let_def split: prod.splits)
  have b: "fst (report_viewer_count env s u) = Returned PyNone" for s
    using assms(2,3)
    by (auto simp: report_viewer_count_def Let_def split: prod.splits stream_outcome.splits)
  show ?thesis by (simp add: cycle_cases a b)
qed

lemma report_active_users_prefix:
  assumes "x \<in> set (active_users s)" "lower x \<notin> set (bot_usernames s)"
  shows "x \<in> set (filtered_users (bot_usernames s) (active_users s))"
    and "prefix (sent s @ [''Active users interacting in '' @ u @ '': ''
              @ join '', '' (filtered_users (bot_usernames s) (active_users s))])
           (sent (snd (report_active_users env s u)))"
proof -
  show x: "x \<in> set (filtered_users (bot_usernames s) (active_users s))"
    using assms by (simp add: filtered_users_def)
  then have ne: "filtered_users (bot_usernames s) (active_users s) \<noteq> []" "active_users s \<noteq> []"
    using assms(1) by auto
  have "sent (snd (report_active_users env s u)) = sent s @ [''Active users interacting in '' @ u @ '': ''
              @ join '', '' (filtered_users (bot_usernames s) (active_users s))]"
    using ne by (simp add: report_active_users_def get_active_users_def Let_def send_def)
  then show "prefix (sent s @ [''Active users interacting in '' @ u @ '': ''
              @ join '', '' (filtered_users (bot_usernames s) (active_users s))])
           (sent (snd (report_active_users env s u)))"
    by simp
qed

lemma report_viewer_count_prefix: "prefix (sent s) (sent (snd (report_viewer_count env s u)))"
  by (auto simp: report_viewer_count_def Let_def send_def
      split: prod.splits stream_outcome.splits option.splits)

lemma sent_cycle_reported:
  assumes "dict_contains (active_links s) u" "x \<in> set (active_users s)"
    "lower x \<notin> set (bot_usernames s)"
  shows "prefix (sent s @ [''Active users interacting in '' @ u @ '': ''
              @ join '', '' (filtered_users (bot_usernames s) (active_users s))])
           (sent (snd (post_viewers_list_cycle env s u)))"
proof -
  let ?r = "sent s @ [''Active users interacting in '' @ u @ '': ''
              @ join '', '' (filtered_users (bot_usernames s) (active_users s))]"
  let ?s1 = "snd (report_active_users env s u)"
  have a: "prefix ?r (sent ?s1)"
    using report_active_users_prefix(2)[OF assms(2,3)] .
  have b: "prefix (sent ?s1) (sent (snd (report_viewer_count env ?s1 u)))"
    by (rule report_viewer_count_prefix)
  have c: "prefix ?r (sent (snd (report_viewer_count env ?s1 u)))"
    using a b by (rule prefix_order.order_trans)
  show ?thesis
    using assms(1) a c by (simp add: cycle_cases split: outcome.splits)
qed

subsection \<open>The appearance tally\<close>







subsection \<open>Lower case\<close>

lemma lower_char_idem: "lower_char (lower_char c) = lower_char c"
  unfolding lower_char_def by (simp split: option.splits if_splits)

lemma lower_idem: "lower (lower s) = lower s"
  by (simp add: lower_def lower_char_idem)

subsection \<open>Starting, stopping and the summary\<close>

lemma dict_contains_dict_set: "dict_contains (dict_set d k v) k"
  by (simp add: dict_contains_def map_of_dict_set)

lemma start_tracking_fields:
  "active_users (start_tracking s u) = active_users s"
  "bot_usernames (start_tracking s u) = bot_usernames s"
  "user_appearance_count (start_tracking s u) = user_appearance_count s"
  "raiders (start_tracking s u) = raiders s"
  by (simp_all add: start_tracking_def Let_def send_def)

lemma start_tracking_tracked: "dict_contains (active_links (start_tracking s u)) u"
  by (simp add: start_tracking_def Let_def send_def dict_contains_dict_set)

lemma on_message_fields:
  "active_users (snd (on_message cfg s m)) = active_users s"
  "bot_usernames (snd (on_message cfg s m)) = bot_usernames s"
  by (simp_all add: on_message_def start_tracking_fields split: sum.splits)

lemma on_message_tracked:
  assumes "\<not> author_is_client m" "channel_id m = TRACK_CHANNEL_ID cfg"
    "str_contains ''twitch.tv'' (content m)" "extract_username (content m) = Inr u"
  shows "dict_contains (active_links (snd (on_message cfg s m))) u"
  using assms by (simp add: on_message_def start_tracking_tracked)

lemma summary_fields:
  "user_appearance_count (summary s) = []"
  "raiders (summary s) = []"
  "bot_usernames (summary s) = bot_usernames s"
  "active_links (summary s) = active_links s"
  "active_users (summary s) = active_users s"
  "chat_requests (summary s) = chat_requests s"
  "cancelled (summary s) = cancelled s"
  by (simp_all add: summary_def Let_def send_def)

lemma sent_summary:
  "sent (summary s) = sent s @
     [if [user. (user, count) \<leftarrow> user_appearance_count s, count = 1] = []
      then ''No users appeared in only one list.''
      else ''Users who appeared in only one list: ''
           @ join '', '' (rev [user. (user, count) \<leftarrow> user_appearance_count s, count = 1]),
      if [user. (user, count) \<leftarrow> user_appearance_count s, count > 1] = []
      then ''No users appeared in more than one list.''
      else ''Users who appeared in multiple lists: ''
           @ join '', '' (rev [user. (user, count) \<leftarrow> user_appearance_count s, count > 1]),
      if raiders s = [] then ''No users raided the channel.''
      else ''Users who raided the channel: '' @ join '', '' (raiders s)]"
  by (simp add: summary_def Let_def send_def)

lemma partition_lengths:
  "length [user. (user, count) \<leftarrow> tally, count = 1] + length [user. (user, count) \<leftarrow> tally, count > 1]
     = length [user. (user, count) \<leftarrow> tally, count \<ge> (1::int)]"
  by (induction tally) auto

lemma on_message_delete_tracked:
  assumes c: "channel_id m = TRACK_CHANNEL_ID cfg"
    and mk: "str_contains ''twitch.tv'' (content m)"
    and ex: "extract_username (content m) = Inr u"
    and tr: "dict_contains (active_links s) u"
    and ld: "load_bot_usernames json_loads fetched = Inr names"
  shows "on_message_delete cfg json_loads fetched s m =
       (Returned PyNone,
        summary (s\<lparr>active_links := filter (\<lambda>(k, v). k \<noteq> u) (active_links s),
                   cancelled := cancelled s @ [the (map_of (active_links s) u)],
                   sent := sent s @ [''Stopped tracking '' @ u @ '' as the link was removed.''],
                   chat_requests := chat_requests s @ [Part u],
                   bot_usernames := names\<rparr>))"
proof -
  from tr obtain t where t: "map_of (active_links s) u = Some t"
    by (auto simp: dict_contains_def)
  have p: "dict_pop (active_links s) u = (Some t, filter (\<lambda>(k, v). k \<noteq> u) (active_links s))"
    by (simp add: dict_pop_def t)
  show ?thesis
    unfolding on_message_delete_def
    by (simp only: c mk ex tr ld p t if_True sum.case prod.case option.case Let_def send_def option.sel)
       simp
qed

lemma on_message_delete_none:
  "fst (on_message_delete cfg json_loads fetched s m) \<noteq> Returned (PyBool b)"
  by (simp add: on_message_delete_def Let_def dict_pop_def
      split: sum.splits option.splits prod.splits)

lemma on_message_delete_active_users:
  "active_users (snd (on_message_delete cfg json_loads fetched s m)) = active_users s"
  by (simp add: on_message_delete_def Let_def dict_pop_def summary_fields send_def
      split: sum.splits option.splits prod.splits)

subsection \<open>The download and the other events\<close>

lemma load_bot_usernames_handled:
  "status response \<noteq> 200 \<Longrightarrow> load_bot_usernames json_loads (Responded response) = Inr []"
  "status response = 200 \<Longrightarrow> json_loads (body response) = JSONDecodeError \<Longrightarrow>
     load_bot_usernames json_loads (Responded response) = Inr []"
  "status response = 200 \<Longrightarrow> json_loads (body response) = JsonDict data \<Longrightarrow>
     load_bot_usernames json_loads (Responded response)
       = Inr (dict_get data ''bot_usernames'' [])"
  by (simp_all add: load_bot_usernames_def)

lemma handle_keeps:
  "x \<in> set (active_users s) \<Longrightarrow> x \<in> set (active_users (handle cfg s ev))"
  by (cases ev)
     (simp_all add: event_message_def event_usernotice_def send_def set_set_add
        on_message_fields on_message_delete_active_users)

lemma handle_all_keeps:
  "x \<in> set (active_users s) \<Longrightarrow> x \<in> set (active_users (foldl (handle cfg) s events))"
  by (induction events arbitrary: s) (simp_all add: handle_keeps)

section \<open>The claims\<close>

subsection \<open>C1: reading the observer set\<close>

text \<open>
  C1 as stated says that the read itself empties the observer set, so that a second read
  before any new message returns the empty sequence. \<^verbatim>\<open>get_active_users\<close> only copies
  the set: after one recorded author, a second read returns that author again.
\<close>

theorem get_active_users_counterexample:
  "fst (get_active_users (snd (get_active_users (event_message (init_state []) False ''alice''))))
     = [''alice'']
   \<and> fst (get_active_users (snd (get_active_users (event_message (init_state []) False ''alice''))))
     \<noteq> []"
  by (simp add: get_active_users_def event_message_def init_state_def set_add_def)

text \<open>
  C1, amended. For every sequence of recorded authors, \<^verbatim>\<open>get_active_users\<close> returns
  each distinct identity of the set exactly once (no repetition, and exactly the
  identities held before plus those recorded) and leaves the state as it is, so a second
  read before any new message returns the same identities. The set is emptied by the
  \<^verbatim>\<open>clear()\<close> that ends an iteration of the tracking loop (line 216): a read after an
  iteration of a tracked stream returns the empty list. (An iteration reaches line 216
  whenever it returns, and it returns unless a \<^verbatim>\<open>reconnect\<close> awaited after a connection
  reset ends with \<^verbatim>\<open>RecursionError\<close>; without a connection reset it always returns.)
\<close>

theorem get_active_users_reads:
  assumes "distinct (active_users s0)"
  shows "distinct (fst (get_active_users (record_all s0 authors)))
       \<and> set (fst (get_active_users (record_all s0 authors))) = set (active_users s0) \<union> set authors
       \<and> snd (get_active_users (record_all s0 authors)) = record_all s0 authors
       \<and> fst (get_active_users (snd (get_active_users (record_all s0 authors))))
          = fst (get_active_users (record_all s0 authors))
       \<and> fst (get_active_users
            (snd (post_viewers_list_cycle env (record_all s0 authors) twitch_username)))
          = (if dict_contains (active_links s0) twitch_username
                \<and> fst (post_viewers_list_cycle env (record_all s0 authors) twitch_username)
                    = Returned PyNone
             then []
             else fst (get_active_users (record_all s0 authors)))
       \<and> (report_send env \<noteq> SendReset \<and> stream_fetch env \<noteq> StreamReset
            \<and> viewers_send env \<noteq> SendReset
          \<longrightarrow> fst (post_viewers_list_cycle env (record_all s0 authors) twitch_username)
              = Returned PyNone)"
proof -
  have "active_links (record_all s0 authors) = active_links s0"
    by (simp add: record_all_frame)
  then show ?thesis
    using assms cycle_returns[of env "record_all s0 authors" twitch_username]
    by (simp add: get_active_users_def active_users_record_all distinct_foldl_set_add
        set_foldl_set_add active_users_cycle)
qed

theorem get_active_users_reads_witness:
  "distinct (active_users (start_tracking (init_state []) ''exampleUser''))
   \<and> fst (get_active_users
        (record_all (start_tracking (init_state []) ''exampleUser'') [''alice'', ''bob'', ''alice'']))
     = [''alice'', ''bob'']
   \<and> Delivered \<noteq> SendReset \<and> StreamData None \<noteq> StreamReset
   \<and> fst (get_active_users (snd (post_viewers_list_cycle
        \<lparr>report_send = Delivered, stream_fetch = StreamData None, viewers_send = Delivered,
         recursion_room = 0, connects_report = (\<lambda>attempt. False),
         connects_viewers = (\<lambda>attempt. False)\<rparr>
        (record_all (start_tracking (init_state []) ''exampleUser'') [''alice'', ''bob'', ''alice''])
        ''exampleUser'')))
     = []"
proof -
  let ?s = "start_tracking (init_state []) ''exampleUser''"
  let ?env = "\<lparr>report_send = Delivered, stream_fetch = StreamData None, viewers_send = Delivered,
         recursion_room = 0, connects_report = (\<lambda>attempt. False),
         connects_viewers = (\<lambda>attempt. False)\<rparr>"
  have h: "distinct (active_users ?s)"
    by (simp add: start_tracking_def init_state_def send_def dict_contains_def)
  have t: "dict_contains (active_links ?s) ''exampleUser''"
    by (simp add: start_tracking_def init_state_def send_def dict_contains_def)
  have r: "fst (get_active_users (record_all ?s [''alice'', ''bob'', ''alice''])) = [''alice'', ''bob'']"
    by (simp add: get_active_users_def active_users_record_all set_add_def start_tracking_def
        init_state_def send_def dict_contains_def)
  have e: "report_send ?env \<noteq> SendReset \<and> stream_fetch ?env \<noteq> StreamReset
      \<and> viewers_send ?env \<noteq> SendReset"
    by simp
  have "fst (get_active_users (snd (post_viewers_list_cycle ?env
          (record_all ?s [''alice'', ''bob'', ''alice'']) ''exampleUser''))) = []"
    using t e get_active_users_reads [OF h, of "[''alice'', ''bob'', ''alice'']" ?env "''exampleUser''"]
    by (simp only: simp_thms if_True)
  then show ?thesis using h r by simp
qed

subsection \<open>C2: exclusion filtering\<close>

text \<open>
  C2 as stated says that an exclusion entry stored as \<^verbatim>\<open>BotUser\<close> excludes the
  participant \<^verbatim>\<open>BOTUSER\<close>. Line 172 lower-cases the participant only and looks the
  result up among the entries as they are stored: with the entry \<^verbatim>\<open>BotUser\<close> the
  participant \<^verbatim>\<open>BOTUSER\<close>, equal to it ignoring case, is reported.
\<close>

theorem filtered_users_counterexample:
  "lower ''BOTUSER'' = lower ''BotUser''
   \<and> sent (snd (post_viewers_list_cycle
        \<lparr>report_send = Delivered, stream_fetch = StreamData None, viewers_send = Delivered,
         recursion_room = 0, connects_report = (\<lambda>attempt. False),
         connects_viewers = (\<lambda>attempt. False)\<rparr>
        ((start_tracking (init_state [''BotUser'']) ''exampleUser'')\<lparr>active_users := [''BOTUSER'']\<rparr>)
        ''exampleUser''))
     = [''Started tracking exampleUser.'', ''Active users interacting in exampleUser: BOTUSER'',
        ''exampleUser is not currently live.'']"
  by (simp add: post_viewers_list_cycle_def report_active_users_def report_viewer_count_def
      start_tracking_def init_state_def send_def
      dict_contains_def get_active_users_def filtered_users_def lower_def lower_char_def
      Let_def)

text \<open>
  C2, amended. Filtering ignores case in the participant identity only: a participant is
  excluded exactly when its lower-cased identity is one of the entries as stored. Hence an
  entry that is already lower case excludes every participant equal to it ignoring case,
  and an entry that is not its own lower case excludes nobody.
\<close>

theorem filtered_users_lowercases_identity:
  "(user \<in> set (filtered_users names users) \<longleftrightarrow> user \<in> set users \<and> lower user \<notin> set names)
   \<and> (entry \<in> set names \<and> lower entry = entry \<and> lower user = lower entry
        \<longrightarrow> user \<notin> set (filtered_users names users))
   \<and> (lower entry \<noteq> entry \<longrightarrow> filtered_users [entry] users = users)"
proof -
  have "lower u \<noteq> entry" if "lower entry \<noteq> entry" for u
    using that lower_idem by metis
  then show ?thesis by (auto simp: filtered_users_def)
qed

theorem filtered_users_lowercases_identity_witness:
  "''botuser'' \<in> set [''botuser''] \<and> lower ''botuser'' = ''botuser''
   \<and> lower ''BOTUSER'' = lower ''botuser''
   \<and> ''BOTUSER'' \<notin> set (filtered_users [''botuser''] [''alice'', ''BOTUSER''])
   \<and> lower ''BotUser'' \<noteq> ''BotUser''
   \<and> filtered_users [''BotUser''] [''alice'', ''BOTUSER''] = [''alice'', ''BOTUSER'']"
proof -
  have h: "''botuser'' \<in> set [''botuser''] \<and> lower ''botuser'' = ''botuser''
      \<and> lower ''BOTUSER'' = lower ''botuser''"
    by (simp add: lower_def lower_char_def)
  have g: "lower ''BotUser'' \<noteq> ''BotUser''"
    by (simp add: lower_def lower_char_def)
  show ?thesis
    using h g
      filtered_users_lowercases_identity
        [of "''BOTUSER''" "[''botuser'']" "[''alice'', ''BOTUSER'']" "''botuser''"]
      filtered_users_lowercases_identity
        [of "''BOTUSER''" "[''BotUser'']" "[''alice'', ''BOTUSER'']" "''BotUser''"]
    by (simp only: simp_thms)
qed

subsection \<open>C3: the end-of-session summary\<close>

text \<open>
  C3. For every tally and every raid ledger, the summary sends three messages after what
  was sent before: the users with count exactly 1 and then the users with count greater
  than 1, each as a comma-joined list in reverse insertion order or as its "none"
  message when there is no such user, then the raiders as a comma-joined list or the
  "no raiders" message. The two lists together hold every entry with a count of at least
  1. Afterwards the tally and the raid ledger are empty, whatever they held. When the
  link of a tracked stream is deleted and the exclusion list download returns, the
  handler is the stop steps followed by exactly this summary.
\<close>

theorem summary_partitions_and_clears:
  "sent (summary s) = sent s @
     [if [user. (user, count) \<leftarrow> user_appearance_count s, count = 1] = []
      then ''No users appeared in only one list.''
      else ''Users who appeared in only one list: ''
           @ join '', '' (rev [user. (user, count) \<leftarrow> user_appearance_count s, count = 1]),
      if [user. (user, count) \<leftarrow> user_appearance_count s, count > 1] = []
      then ''No users appeared in more than one list.''
      else ''Users who appeared in multiple lists: ''
           @ join '', '' (rev [user. (user, count) \<leftarrow> user_appearance_count s, count > 1]),
      if raiders s = [] then ''No users raided the channel.''
      else ''Users who raided the channel: '' @ join '', '' (raiders s)]
   \<and> length [user. (user, count) \<leftarrow> user_appearance_count s, count = 1]
       + length [user. (user, count) \<leftarrow> user_appearance_count s, count > 1]
     = length [user. (user, count) \<leftarrow> user_appearance_count s, count \<ge> 1]
   \<and> user_appearance_count (summary s) = []
   \<and> raiders (summary s) = []
   \<and> (channel_id m = TRACK_CHANNEL_ID cfg \<and> str_contains ''twitch.tv'' (content m)
        \<and> extract_username (content m) = Inr twitch_username
        \<and> dict_contains (active_links s) twitch_username
        \<and> load_bot_usernames json_loads fetched = Inr names
      \<longrightarrow> on_message_delete cfg json_loads fetched s m =
            (Returned PyNone,
             summary (s\<lparr>active_links := filter (\<lambda>(k, v). k \<noteq> twitch_username) (active_links s),
                        cancelled := cancelled s @ [the (map_of (active_links s) twitch_username)],
                        sent := sent s @ [''Stopped tracking '' @ twitch_username
                                          @ '' as the link was removed.''],
                        chat_requests := chat_requests s @ [Part twitch_username],
                        bot_usernames := names\<rparr>)))"
  using sent_summary[of s] partition_lengths[of "user_appearance_count s"]
    on_message_delete_tracked[of m cfg twitch_username s json_loads fetched names]
  by (simp only: summary_fields) simp

theorem summary_partitions_and_clears_witness:
  "channel_id \<lparr>author_is_client = False, channel_id = 1, content = ''https://twitch.tv/exampleUser''\<rparr>
     = TRACK_CHANNEL_ID \<lparr>TRACK_CHANNEL_ID = 1, OUTPUT_CHANNEL_ID = 2\<rparr>
   \<and> str_contains ''twitch.tv'' ''https://twitch.tv/exampleUser''
   \<and> extract_username ''https://twitch.tv/exampleUser'' = Inr ''exampleUser''
   \<and> dict_contains [(''exampleUser'', Task ''exampleUser'')] ''exampleUser''
   \<and> load_bot_usernames (\<lambda>t. JSONDecodeError) (Responded \<lparr>status = 200, body = ''{''\<rparr>) = Inr []
   \<and> sent (snd (on_message_delete \<lparr>TRACK_CHANNEL_ID = 1, OUTPUT_CHANNEL_ID = 2\<rparr>
        (\<lambda>t. JSONDecodeError) (Responded \<lparr>status = 200, body = ''{''\<rparr>)
        \<lparr>bot_usernames = [], active_links = [(''exampleUser'', Task ''exampleUser'')],
         user_appearance_count = [(''alice'', 1), (''bob'', 2), (''carol'', 1), (''dave'', 3)],
         raiders = [''erin''], active_users = [], sent = [], chat_requests = [], cancelled = []\<rparr>
        \<lparr>author_is_client = False, channel_id = 1, content = ''https://twitch.tv/exampleUser''\<rparr>))
     = [''Stopped tracking exampleUser as the link was removed.'',
        ''Users who appeared in only one list: carol, alice'',
        ''Users who appeared in multiple lists: dave, bob'',
        ''Users who raided the channel: erin'']"
proof -
  let ?m = "\<lparr>author_is_client = False, channel_id = 1, content = ''https://twitch.tv/exampleUser''\<rparr>"
  let ?cfg = "\<lparr>TRACK_CHANNEL_ID = 1, OUTPUT_CHANNEL_ID = 2\<rparr>"
  let ?f = "Responded \<lparr>status = 200, body = ''{''\<rparr>"
  let ?s = "\<lparr>bot_usernames = [], active_links = [(''exampleUser'', Task ''exampleUser'')],
         user_appearance_count = [(''alice'', 1), (''bob'', 2), (''carol'', 1), (''dave'', 3)],
         raiders = [''erin''], active_users = [], sent = [], chat_requests = [], cancelled = []\<rparr>"
  have h: "channel_id ?m = TRACK_CHANNEL_ID ?cfg \<and> str_contains ''twitch.tv'' (content ?m)
    \<and> extract_username (content ?m) = Inr ''exampleUser''
    \<and> dict_contains (active_links ?s) ''exampleUser''
    \<and> load_bot_usernames (\<lambda>t. JSONDecodeError) ?f = Inr []"
    by (simp add: extract_example dict_contains_def load_bot_usernames_def)
  have "on_message_delete ?cfg (\<lambda>t. JSONDecodeError) ?f ?s ?m
        = (Returned PyNone,
             summary (?s\<lparr>active_links := filter (\<lambda>(k, v). k \<noteq> ''exampleUser'') (active_links ?s),
                        cancelled := cancelled ?s @ [the (map_of (active_links ?s) ''exampleUser'')],
                        sent := sent ?s @ [''Stopped tracking '' @ ''exampleUser''
                                          @ '' as the link was removed.''],
                        chat_requests := chat_requests ?s @ [Part ''exampleUser''],
                        bot_usernames := []\<rparr>))"
    using h summary_partitions_and_clears
      [of ?s ?m ?cfg "''exampleUser''" "\<lambda>t. JSONDecodeError" ?f "[]"]
    by (simp only: simp_thms)
  then show ?thesis using h by (simp add: summary_def Let_def send_def)
qed

subsection \<open>C4: starting twice\<close>

text \<open>
  C4. When the identifier is already in the registry, \<^verbatim>\<open>start_tracking\<close> leaves the
  whole state unchanged: the registry (size and task mapping), the messages sent (no
  second "Started tracking") and the requests to the chat client (no second join). The
  same holds for the message handler on a message whose link names that identifier.
\<close>

theorem start_tracking_idempotent:
  assumes "dict_contains (active_links s) twitch_username"
  shows "start_tracking s twitch_username = s
       \<and> (extract_username (content m) = Inr twitch_username
            \<longrightarrow> on_message cfg s m = (Returned PyNone, s))"
  using assms by (simp add: start_tracking_def on_message_def)

theorem start_tracking_idempotent_witness:
  "dict_contains (active_links (start_tracking (init_state []) ''exampleUser'')) ''exampleUser''
   \<and> start_tracking (start_tracking (init_state []) ''exampleUser'') ''exampleUser''
       = start_tracking (init_state []) ''exampleUser''
   \<and> sent (start_tracking (start_tracking (init_state []) ''exampleUser'') ''exampleUser'')
       = [''Started tracking exampleUser.'']
   \<and> chat_requests (start_tracking (start_tracking (init_state []) ''exampleUser'') ''exampleUser'')
       = [Join ''exampleUser'']
   \<and> extract_username ''https://twitch.tv/exampleUser'' = Inr ''exampleUser''
   \<and> on_message \<lparr>TRACK_CHANNEL_ID = 1, OUTPUT_CHANNEL_ID = 2\<rparr>
        (start_tracking (init_state []) ''exampleUser'')
        \<lparr>author_is_client = False, channel_id = 1, content = ''https://twitch.tv/exampleUser''\<rparr>
       = (Returned PyNone, start_tracking (init_state []) ''exampleUser'')"
proof -
  have h: "dict_contains (active_links (start_tracking (init_state []) ''exampleUser'')) ''exampleUser''"
    by (simp add: start_tracking_def init_state_def dict_contains_def send_def)
  have e: "extract_username (content \<lparr>author_is_client = False, channel_id = 1, content = ''https://twitch.tv/exampleUser''\<rparr>) = Inr ''exampleUser''"
    by (simp add: extract_example)
  have i: "sent (start_tracking (init_state []) ''exampleUser'') = [''Started tracking exampleUser.'']"
     "chat_requests (start_tracking (init_state []) ''exampleUser'') = [Join ''exampleUser'']"
    by (simp_all add: start_tracking_def init_state_def dict_contains_def send_def)
  show ?thesis
    using h e i start_tracking_idempotent [OF h, of "\<lparr>author_is_client = False, channel_id = 1, content = ''https://twitch.tv/exampleUser''\<rparr>" "\<lparr>TRACK_CHANNEL_ID = 1, OUTPUT_CHANNEL_ID = 2\<rparr>"]
    by (simp add: extract_example)
qed

subsection \<open>C5: stopping an untracked stream\<close>

text \<open>
  C5 as stated says that stopping returns a boolean that is true exactly when a session
  was stopped. The handler has no \<^verbatim>\<open>return\<close> statement: on the link of a tracked
  stream it stops the session (the registry entry is gone, the stop message and the
  summary are sent) and returns \<^verbatim>\<open>None\<close>, not \<^verbatim>\<open>True\<close>.
\<close>

theorem on_message_delete_counterexample:
  "dict_contains (active_links (start_tracking (init_state []) ''exampleUser'')) ''exampleUser''
   \<and> on_message_delete \<lparr>TRACK_CHANNEL_ID = 1, OUTPUT_CHANNEL_ID = 2\<rparr>
        (\<lambda>t. JSONDecodeError) (Responded \<lparr>status = 200, body = ''{''\<rparr>)
        (start_tracking (init_state []) ''exampleUser'')
        \<lparr>author_is_client = False, channel_id = 1, content = ''https://twitch.tv/exampleUser''\<rparr>
     = (Returned PyNone,
        \<lparr>bot_usernames = [], active_links = [], user_appearance_count = [], raiders = [],
         active_users = [],
         sent = [''Started tracking exampleUser.'',
                 ''Stopped tracking exampleUser as the link was removed.'',
                 ''No users appeared in only one list.'',
                 ''No users appeared in more than one list.'',
                 ''No users raided the channel.''],
         chat_requests = [Join ''exampleUser'', Part ''exampleUser''],
         cancelled = [Task ''exampleUser'']\<rparr>)
   \<and> Returned PyNone \<noteq> Returned (PyBool True)"
  by (simp add: on_message_delete_def start_tracking_def init_state_def dict_contains_def
      dict_pop_def extract_example load_bot_usernames_def summary_def send_def Let_def)

text \<open>
  C5, amended. The message-delete handler never returns a boolean (where it returns, it
  returns \<^verbatim>\<open>None\<close>). For every state in which the extracted identifier is not tracked,
  and for every message outside the tracked channel or without the marker, it returns
  with the state unchanged: registry, tally, raid ledger and messages sent.
\<close>

theorem on_message_delete_untracked_noop:
  "fst (on_message_delete cfg json_loads fetched s m) \<noteq> Returned (PyBool b)
   \<and> (extract_username (content m) = Inr twitch_username
        \<and> \<not> dict_contains (active_links s) twitch_username
      \<longrightarrow> on_message_delete cfg json_loads fetched s m = (Returned PyNone, s))
   \<and> (channel_id m \<noteq> TRACK_CHANNEL_ID cfg \<or> \<not> str_contains ''twitch.tv'' (content m)
      \<longrightarrow> on_message_delete cfg json_loads fetched s m = (Returned PyNone, s))"
  using on_message_delete_none[of cfg json_loads fetched s m b]
  by (simp add: on_message_delete_def)

theorem on_message_delete_untracked_noop_witness:
  "extract_username ''https://twitch.tv/exampleUser'' = Inr ''exampleUser''
   \<and> \<not> dict_contains (active_links (start_tracking (init_state []) ''otherUser'')) ''exampleUser''
   \<and> on_message_delete \<lparr>TRACK_CHANNEL_ID = 1, OUTPUT_CHANNEL_ID = 2\<rparr>
        (\<lambda>t. JSONDecodeError) ConnectionFailed
        (start_tracking (init_state []) ''otherUser'')
        \<lparr>author_is_client = False, channel_id = 1, content = ''https://twitch.tv/exampleUser''\<rparr>
     = (Returned PyNone, start_tracking (init_state []) ''otherUser'')
   \<and> (7::int) \<noteq> TRACK_CHANNEL_ID \<lparr>TRACK_CHANNEL_ID = 1, OUTPUT_CHANNEL_ID = 2\<rparr>
   \<and> on_message_delete \<lparr>TRACK_CHANNEL_ID = 1, OUTPUT_CHANNEL_ID = 2\<rparr>
        (\<lambda>t. JSONDecodeError) ConnectionFailed
        (start_tracking (init_state []) ''exampleUser'')
        \<lparr>author_is_client = False, channel_id = 7, content = ''https://twitch.tv/exampleUser''\<rparr>
     = (Returned PyNone, start_tracking (init_state []) ''exampleUser'')"
proof -
  let ?cfg = "\<lparr>TRACK_CHANNEL_ID = 1, OUTPUT_CHANNEL_ID = 2\<rparr>"
  let ?m = "\<lparr>author_is_client = False, channel_id = 1, content = ''https://twitch.tv/exampleUser''\<rparr>"
  let ?m7 = "\<lparr>author_is_client = False, channel_id = 7, content = ''https://twitch.tv/exampleUser''\<rparr>"
  have h: "extract_username (content ?m) = Inr ''exampleUser''
      \<and> \<not> dict_contains (active_links (start_tracking (init_state []) ''otherUser'')) ''exampleUser''"
    by (simp add: extract_example start_tracking_def init_state_def dict_contains_def send_def)
  have h7: "channel_id ?m7 \<noteq> TRACK_CHANNEL_ID ?cfg" by simp
  show ?thesis
    using h h7
      on_message_delete_untracked_noop
        [of ?cfg "\<lambda>t. JSONDecodeError" ConnectionFailed
            "start_tracking (init_state []) ''otherUser''" ?m True "''exampleUser''"]
      on_message_delete_untracked_noop
        [of ?cfg "\<lambda>t. JSONDecodeError" ConnectionFailed
            "start_tracking (init_state []) ''exampleUser''" ?m7 True "''exampleUser''"]
    by (simp only: simp_thms) simp
qed

subsection \<open>C6: the delay between reconnection attempts\<close>

text \<open>
  C6. The delay slept after the failed attempt number \<open>k\<close> is \<open>min (10 * k) 60\<close> seconds:
  10, 20, 30, 40, 50, 60, 60, and so on. It starts at 10 and is capped at 60, but it
  grows by a constant 10 per attempt and not by a constant factor (the third delay is 30,
  not 40), under a comment that says "Exponential backoff". Nor is the number of attempts
  unbounded: every failed attempt nests one more call, so when every attempt fails the
  procedure ends with \<^verbatim>\<open>RecursionError\<close> after as many attempts as the recursion limit
  leaves room for, whatever that room is.
\<close>

theorem reconnect_backoff_linear:
  "reconnect 8 (\<lambda>attempt. attempt = 8) 1 = (Returned PyNone, [10, 20, 30, 40, 50, 60, 60])
   \<and> reconnect 3 (\<lambda>attempt. False) 1 = (Raised RecursionError, [10, 20, 30])
   \<and> reconnect room (\<lambda>attempt. False) 1
       = (Raised RecursionError, map (\<lambda>k. min (10 * (1 + int k)) 60) [0..<room])"
proof -
  have "reconnect 8 (\<lambda>attempt. attempt = 8) 1 = (Returned PyNone, [10, 20, 30, 40, 50, 60, 60])"
    by code_simp
  moreover have "reconnect 3 (\<lambda>attempt. False) 1 = (Raised RecursionError, [10, 20, 30])"
    by code_simp
  ultimately show ?thesis using reconnect_all_fail[of room 1] by simp
qed

subsection \<open>C7: counting appearances\<close>




subsection \<open>C8: reloading the exclusion list\<close>

text \<open>
  C8. \<^verbatim>\<open>load_bot_usernames\<close> returns the empty list for a response whose status is not
  200 and for a text that \<^verbatim>\<open>json.loads\<close> rejects, but it does not cover every failed
  reload: a connection that fails raises \<^verbatim>\<open>ClientError\<close> out of it, and a JSON text
  that is no object raises \<^verbatim>\<open>AttributeError\<close>. The stop handler then ends at line
  300 with that exception: the exclusion list keeps its previous entries, and the summary
  and the two \<^verbatim>\<open>clear()\<close> calls are not reached.
\<close>

theorem load_bot_usernames_raises:
  "load_bot_usernames json_loads ConnectionFailed = Inl ClientError
   \<and> load_bot_usernames (\<lambda>t. JsonOther) (Responded \<lparr>status = 200, body = ''[]''\<rparr>)
       = Inl AttributeError
   \<and> on_message_delete \<lparr>TRACK_CHANNEL_ID = 1, OUTPUT_CHANNEL_ID = 2\<rparr> json_loads ConnectionFailed
       \<lparr>bot_usernames = [''nightbot''], active_links = [(''exampleUser'', Task ''exampleUser'')],
        user_appearance_count = [(''alice'', 1)], raiders = [''erin''], active_users = [],
        sent = [], chat_requests = [], cancelled = []\<rparr>
       \<lparr>author_is_client = False, channel_id = 1, content = ''https://twitch.tv/exampleUser''\<rparr>
     = (Raised ClientError,
        \<lparr>bot_usernames = [''nightbot''], active_links = [],
         user_appearance_count = [(''alice'', 1)], raiders = [''erin''], active_users = [],
         sent = [''Stopped tracking exampleUser as the link was removed.''],
         chat_requests = [Part ''exampleUser''], cancelled = [Task ''exampleUser'']\<rparr>)
   \<and> load_bot_usernames json_loads (Responded \<lparr>status = 404, body = ''Not Found''\<rparr>) = Inr []
   \<and> load_bot_usernames (\<lambda>t. JSONDecodeError) (Responded \<lparr>status = 200, body = ''{''\<rparr>) = Inr []"
  by (simp add: load_bot_usernames_def on_message_delete_def dict_contains_def dict_pop_def
      extract_example send_def Let_def)

subsection \<open>C9: extraction is partial\<close>

text \<open>
  C9. Extraction of the stream identifier is partial. Whenever the content ends in the
  marker \<^verbatim>\<open>twitch.tv/\<close> followed by whitespace only (or by nothing), whatever stands
  before it, the marker test of the handlers succeeds and the expression
  \<^verbatim>\<open>content.split('twitch.tv/')[-1].split()[0]\<close> raises \<^verbatim>\<open>IndexError\<close>; the
  message-create handler (for a message of another author in the tracked channel) and the
  message-delete handler (in the tracked channel) then end with that exception, the state
  untouched. On a well-formed link the extraction succeeds, so both branches of the result
  type are reachable.
\<close>

theorem extract_username_partial:
  assumes "list_all is_space ws"
  shows "str_contains ''twitch.tv'' (pre @ ''twitch.tv/'' @ ws)
       \<and> extract_username (pre @ ''twitch.tv/'' @ ws) = Inl IndexError
       \<and> on_message cfg s
           \<lparr>author_is_client = False, channel_id = TRACK_CHANNEL_ID cfg,
            content = pre @ ''twitch.tv/'' @ ws\<rparr> = (Raised IndexError, s)
       \<and> on_message_delete cfg json_loads fetched s
           \<lparr>author_is_client = by_client, channel_id = TRACK_CHANNEL_ID cfg,
            content = pre @ ''twitch.tv/'' @ ws\<rparr> = (Raised IndexError, s)
       \<and> extract_username ''https://twitch.tv/exampleUser'' = Inr ''exampleUser''"
  using assms
  by (simp add: on_message_def on_message_delete_def marker_present extract_fails
      extract_example del: append_Cons)

theorem extract_username_partial_witness:
  "list_all is_space '' ''
   \<and> extract_username ''see https://twitch.tv/ '' = Inl IndexError
   \<and> on_message \<lparr>TRACK_CHANNEL_ID = 1, OUTPUT_CHANNEL_ID = 2\<rparr> (init_state [])
       \<lparr>author_is_client = False, channel_id = 1, content = ''see https://twitch.tv/ ''\<rparr>
     = (Raised IndexError, init_state [])"
proof -
  have h: "list_all is_space '' ''" by (simp add: is_space_def)
  show ?thesis
    using h extract_username_partial [OF h, of "''see https://''"
        "\<lparr>TRACK_CHANNEL_ID = 1, OUTPUT_CHANNEL_ID = 2\<rparr>" "init_state []"]
    by simp
qed

subsection \<open>C10: stopping leaves the observer set\<close>

text \<open>
  C10 as stated says that every identity left in the observer set by a stopped session is
  reported in the first cycle of the next session. First, an identity whose lower case is
  in the reloaded exclusion list stays in the set through the stop and the next start, and
  the first cycle then filters it out. Second, the set is shared by all sessions: when
  another tracked stream runs an iteration between the stop and the next start, its line
  216 empties the set, and the first cycle of the next session finds no active user.
\<close>

theorem stop_keeps_active_users_counterexample:
  "''nightbot'' \<in> set (active_users
      (snd (on_message_delete \<lparr>TRACK_CHANNEL_ID = 1, OUTPUT_CHANNEL_ID = 2\<rparr>
        (\<lambda>t. if t = ''{\"bot_usernames\": [\"nightbot\"]}''
              then JsonDict [(''bot_usernames'', [''nightbot''])] else JSONDecodeError)
        (Responded \<lparr>status = 200, body = ''{\"bot_usernames\": [\"nightbot\"]}''\<rparr>)
        (event_message (start_tracking (init_state [''nightbot'']) ''exampleUser'') False ''nightbot'')
        \<lparr>author_is_client = False, channel_id = 1, content = ''https://twitch.tv/exampleUser''\<rparr>)))
   \<and> sent (snd (post_viewers_list_cycle
        \<lparr>report_send = Delivered, stream_fetch = StreamData None, viewers_send = Delivered,
         recursion_room = 0, connects_report = (\<lambda>attempt. False),
         connects_viewers = (\<lambda>attempt. False)\<rparr>
        (snd (on_message \<lparr>TRACK_CHANNEL_ID = 1, OUTPUT_CHANNEL_ID = 2\<rparr>
          (snd (on_message_delete \<lparr>TRACK_CHANNEL_ID = 1, OUTPUT_CHANNEL_ID = 2\<rparr>
            (\<lambda>t. if t = ''{\"bot_usernames\": [\"nightbot\"]}''
                  then JsonDict [(''bot_usernames'', [''nightbot''])] else JSONDecodeError)
            (Responded \<lparr>status = 200, body = ''{\"bot_usernames\": [\"nightbot\"]}''\<rparr>)
            (event_message (start_tracking (init_state [''nightbot'']) ''exampleUser'') False ''nightbot'')
            \<lparr>author_is_client = False, channel_id = 1, content = ''https://twitch.tv/exampleUser''\<rparr>))
          \<lparr>author_is_client = False, channel_id = 1, content = ''https://twitch.tv/exampleUser''\<rparr>))
        ''exampleUser''))
     = [''Started tracking exampleUser.'',
        ''Stopped tracking exampleUser as the link was removed.'',
        ''No users appeared in only one list.'',
        ''No users appeared in more than one list.'',
        ''No users raided the channel.'',
        ''Started tracking exampleUser.'',
        ''No non-bot chat users detected for exampleUser.'',
        ''exampleUser is not currently live.'']
   \<and> ''alice'' \<in> set (active_users
      (snd (on_message_delete \<lparr>TRACK_CHANNEL_ID = 1, OUTPUT_CHANNEL_ID = 2\<rparr>
        (\<lambda>t. JSONDecodeError) (Responded \<lparr>status = 404, body = ''Not Found''\<rparr>)
        (event_message
          (start_tracking (start_tracking (init_state []) ''exampleUser'') ''otherUser'')
          False ''alice'')
        \<lparr>author_is_client = False, channel_id = 1, content = ''https://twitch.tv/exampleUser''\<rparr>)))
   \<and> sent (snd (post_viewers_list_cycle
        \<lparr>report_send = Delivered, stream_fetch = StreamData None, viewers_send = Delivered,
         recursion_room = 0, connects_report = (\<lambda>attempt. False),
         connects_viewers = (\<lambda>attempt. False)\<rparr>
        (snd (on_message \<lparr>TRACK_CHANNEL_ID = 1, OUTPUT_CHANNEL_ID = 2\<rparr>
          (snd (post_viewers_list_cycle
            \<lparr>report_send = Delivered, stream_fetch = StreamData None, viewers_send = Delivered,
             recursion_room = 0, connects_report = (\<lambda>attempt. False),
             connects_viewers = (\<lambda>attempt. False)\<rparr>
            (snd (on_message_delete \<lparr>TRACK_CHANNEL_ID = 1, OUTPUT_CHANNEL_ID = 2\<rparr>
              (\<lambda>t. JSONDecodeError) (Responded \<lparr>status = 404, body = ''Not Found''\<rparr>)
              (event_message
                (start_tracking (start_tracking (init_state []) ''exampleUser'') ''otherUser'')
                False ''alice'')
              \<lparr>author_is_client = False, channel_id = 1,
               content = ''https://twitch.tv/exampleUser''\<rparr>))
            ''otherUser''))
          \<lparr>author_is_client = False, channel_id = 1, content = ''https://twitch.tv/exampleUser''\<rparr>))
        ''exampleUser''))
     = [''Started tracking exampleUser.'',
        ''Started tracking otherUser.'',
        ''Stopped tracking exampleUser as the link was removed.'',
        ''No users appeared in only one list.'',
        ''No users appeared in more than one list.'',
        ''No users raided the channel.'',
        ''Active users interacting in otherUser: alice'',
        ''otherUser is not currently live.'',
        ''Started tracking exampleUser.'',
        ''No active chat users detected for exampleUser.'',
        ''exampleUser is not currently live.'']"
  by code_simp

text \<open>
  C10, amended. The message-delete handler leaves the observer set unchanged on every
  path, and no event other than an iteration of a tracking loop removes an identity from
  it. So after the stop and any such events (the next start among them), with no
  iteration of another session in between, the first cycle of the session started next
  sends a list of active users that holds every identity of the set whose lower case is
  not in the exclusion list as it is then.
\<close>

theorem stop_keeps_active_users:
  "active_users (snd (on_message_delete cfg json_loads fetched s m)) = active_users s
   \<and> (x \<in> set (active_users s) \<longrightarrow> x \<in> set (active_users (foldl (handle cfg) s events)))
   \<and> (x \<in> set (active_users s)
        \<and> dict_contains (active_links (foldl (handle cfg) s events)) next_username
        \<and> lower x \<notin> set (bot_usernames (foldl (handle cfg) s events))
      \<longrightarrow> x \<in> set (filtered_users (bot_usernames (foldl (handle cfg) s events))
                    (active_users (foldl (handle cfg) s events)))
          \<and> prefix
               (sent (foldl (handle cfg) s events)
                @ [''Active users interacting in '' @ next_username @ '': ''
                   @ join '', '' (filtered_users (bot_usernames (foldl (handle cfg) s events))
                                    (active_users (foldl (handle cfg) s events)))])
               (sent (snd (post_viewers_list_cycle env (foldl (handle cfg) s events)
                             next_username))))"
proof -
  let ?s' = "foldl (handle cfg) s events"
  have k: "x \<in> set (active_users ?s')" if "x \<in> set (active_users s)"
    using that by (rule handle_all_keeps)
  have "x \<in> set (filtered_users (bot_usernames ?s') (active_users ?s'))
      \<and> prefix (sent ?s' @ [''Active users interacting in '' @ next_username @ '': ''
                   @ join '', '' (filtered_users (bot_usernames ?s') (active_users ?s'))])
               (sent (snd (post_viewers_list_cycle env ?s' next_username)))"
    if "x \<in> set (active_users s)" "dict_contains (active_links ?s') next_username"
      "lower x \<notin> set (bot_usernames ?s')"
    using sent_cycle_reported[OF that(2) k[OF that(1)] that(3), of env]
      report_active_users_prefix(1)[OF k[OF that(1)] that(3)]
    by simp
  then show ?thesis
    using k on_message_delete_active_users[of cfg json_loads fetched s m]
    by (simp only: simp_thms) blast
qed

theorem stop_keeps_active_users_witness:
  "''alice'' \<in> set (active_users
      (event_message (start_tracking (init_state []) ''exampleUser'') False ''alice''))
   \<and> dict_contains (active_links
        (foldl (handle \<lparr>TRACK_CHANNEL_ID = 1, OUTPUT_CHANNEL_ID = 2\<rparr>)
          (event_message (start_tracking (init_state []) ''exampleUser'') False ''alice'')
          [Deleted (\<lambda>t. JSONDecodeError) (Responded \<lparr>status = 404, body = ''Not Found''\<rparr>)
             \<lparr>author_is_client = False, channel_id = 1,
              content = ''https://twitch.tv/exampleUser''\<rparr>,
           Chat False ''bob'',
           Posted \<lparr>author_is_client = False, channel_id = 1,
                   content = ''https://twitch.tv/exampleUser''\<rparr>]))
        ''exampleUser''
   \<and> lower ''alice'' \<notin> set (bot_usernames
        (foldl (handle \<lparr>TRACK_CHANNEL_ID = 1, OUTPUT_CHANNEL_ID = 2\<rparr>)
          (event_message (start_tracking (init_state []) ''exampleUser'') False ''alice'')
          [Deleted (\<lambda>t. JSONDecodeError) (Responded \<lparr>status = 404, body = ''Not Found''\<rparr>)
             \<lparr>author_is_client = False, channel_id = 1,
              content = ''https://twitch.tv/exampleUser''\<rparr>,
           Chat False ''bob'',
           Posted \<lparr>author_is_client = False, channel_id = 1,
                   content = ''https://twitch.tv/exampleUser''\<rparr>]))
   \<and> prefix
        [''Started tracking exampleUser.'',
         ''Stopped tracking exampleUser as the link was removed.'',
         ''No users appeared in only one list.'',
         ''No users appeared in more than one list.'',
         ''No users raided the channel.'',
         ''Started tracking exampleUser.'',
         ''Active users interacting in exampleUser: alice, bob'']
        (sent (snd (post_viewers_list_cycle
          \<lparr>report_send = Delivered, stream_fetch = StreamData None, viewers_send = Delivered,
           recursion_room = 0, connects_report = (\<lambda>attempt. False),
           connects_viewers = (\<lambda>attempt. False)\<rparr>
          (foldl (handle \<lparr>TRACK_CHANNEL_ID = 1, OUTPUT_CHANNEL_ID = 2\<rparr>)
            (event_message (start_tracking (init_state []) ''exampleUser'') False ''alice'')
            [Deleted (\<lambda>t. JSONDecodeError) (Responded \<lparr>status = 404, body = ''Not Found''\<rparr>)
               \<lparr>author_is_client = False, channel_id = 1,
                content = ''https://twitch.tv/exampleUser''\<rparr>,
             Chat False ''bob'',
             Posted \<lparr>author_is_client = False, channel_id = 1,
                     content = ''https://twitch.tv/exampleUser''\<rparr>])
          ''exampleUser'')))"
proof -
  let ?cfg = "\<lparr>TRACK_CHANNEL_ID = 1, OUTPUT_CHANNEL_ID = 2\<rparr>"
  let ?m = "\<lparr>author_is_client = False, channel_id = 1, content = ''https://twitch.tv/exampleUser''\<rparr>"
  let ?s = "event_message (start_tracking (init_state []) ''exampleUser'') False ''alice''"
  let ?events = "[Deleted (\<lambda>t. JSONDecodeError) (Responded \<lparr>status = 404, body = ''Not Found''\<rparr>) ?m,
                  Chat False ''bob'', Posted ?m]"
  let ?env = "\<lparr>report_send = Delivered, stream_fetch = StreamData None, viewers_send = Delivered,
           recursion_room = 0, connects_report = (\<lambda>attempt. False),
           connects_viewers = (\<lambda>attempt. False)\<rparr>"
  have s': "foldl (handle ?cfg) ?s ?events =
      \<lparr>bot_usernames = [], active_links = [(''exampleUser'', Task ''exampleUser'')],
       user_appearance_count = [], raiders = [], active_users = [''alice'', ''bob''],
       sent = [''Started tracking exampleUser.'',
               ''Stopped tracking exampleUser as the link was removed.'',
               ''No users appeared in only one list.'',
               ''No users appeared in more than one list.'',
               ''No users raided the channel.'',
               ''Started tracking exampleUser.''],
       chat_requests = [Join ''exampleUser'', Part ''exampleUser'', Join ''exampleUser''],
       cancelled = [Task ''exampleUser'']\<rparr>"
    by code_simp
  have h: "''alice'' \<in> set (active_users ?s)
      \<and> dict_contains (active_links (foldl (handle ?cfg) ?s ?events)) ''exampleUser''
      \<and> lower ''alice'' \<notin> set (bot_usernames (foldl (handle ?cfg) ?s ?events))"
    unfolding s'
    by (simp add: event_message_def start_tracking_def init_state_def send_def set_add_def
        dict_contains_def)
  have f: "filtered_users (bot_usernames (foldl (handle ?cfg) ?s ?events))
             (active_users (foldl (handle ?cfg) ?s ?events)) = [''alice'', ''bob'']"
    unfolding s' by (simp add: filtered_users_def)
  have "prefix
          (sent (foldl (handle ?cfg) ?s ?events)
           @ [''Active users interacting in '' @ ''exampleUser'' @ '': ''
              @ join '', '' (filtered_users (bot_usernames (foldl (handle ?cfg) ?s ?events))
                               (active_users (foldl (handle ?cfg) ?s ?events)))])
          (sent (snd (post_viewers_list_cycle ?env (foldl (handle ?cfg) ?s ?events)
                        ''exampleUser'')))"
    using h stop_keeps_active_users
      [of ?cfg "\<lambda>t. JSONDecodeError" "Responded \<lparr>status = 404, body = ''Not Found''\<rparr>" ?s ?m
          "''alice''" ?events "''exampleUser''" ?env]
    by blast
  then have "prefix
        [''Started tracking exampleUser.'',
         ''Stopped tracking exampleUser as the link was removed.'',
         ''No users appeared in only one list.'',
         ''No users appeared in more than one list.'',
         ''No users raided the channel.'',
         ''Started tracking exampleUser.'',
         ''Active users interacting in exampleUser: alice, bob'']
        (sent (snd (post_viewers_list_cycle ?env (foldl (handle ?cfg) ?s ?events)
                      ''exampleUser'')))"
    unfolding f unfolding s' by simp
  then show ?thesis using h by (simp only: simp_thms)
qed

end
